theory Spec2Isabelle
  imports Complex_Main "HOL-Library.Sublist"
begin

section \<open>Python values\<close>

text \<open>
  The decision layer of the repository works on plain Python dictionaries whose values
  have no fixed type (\<^verbatim>\<open>Dict[str, Any]\<close>). The values are embedded as a datatype; a
  dictionary is an association list in insertion order, as Python keeps it. A float is
  represented by the real number it denotes (NaN and the infinities are left out); the
  code only compares floats with constants and subtracts clock readings.
\<close>

datatype pyval =
    PNone
  | PBool bool
  | PInt int
  | PFloat real
  | PStr string
  | PList "pyval list"
  | PDict "(string \<times> pyval) list"

type_synonym pydict = "(string \<times> pyval) list"

text \<open>The exceptions that the modelled operations raise.\<close>

datatype py_error = TypeError | AttributeError | IndexError | KeyError

text \<open>\<^verbatim>\<open>d.get(k)\<close>, \<^verbatim>\<open>d.get(k, default)\<close> and \<^verbatim>\<open>d[k] = v\<close>.\<close>

definition dict_get :: "pydict \<Rightarrow> string \<Rightarrow> pyval" where
  "dict_get d k = (case map_of d k of None \<Rightarrow> PNone | Some v \<Rightarrow> v)"

definition dict_get_default :: "pydict \<Rightarrow> string \<Rightarrow> pyval \<Rightarrow> pyval" where
  "dict_get_default d k dflt = (case map_of d k of None \<Rightarrow> dflt | Some v \<Rightarrow> v)"

fun dict_set :: "('k \<times> 'v) list \<Rightarrow> 'k \<Rightarrow> 'v \<Rightarrow> ('k \<times> 'v) list" where
  "dict_set [] k v = [(k, v)]"
| "dict_set (p # ps) k v = (if fst p = k then (k, v) # ps else p # dict_set ps k v)"

text \<open>
  Calling \<^verbatim>\<open>.get\<close> on a value works on a dictionary only; any other value has no such
  attribute.
\<close>

fun as_dict :: "pyval \<Rightarrow> py_error + pydict" where
  "as_dict (PDict d) = Inr d"
| "as_dict _ = Inl AttributeError"

text \<open>Truth value of an object, as \<^verbatim>\<open>if x:\<close> tests it.\<close>

fun truthy :: "pyval \<Rightarrow> bool" where
  "truthy PNone = False"
| "truthy (PBool b) = b"
| "truthy (PInt i) = (i \<noteq> 0)"
| "truthy (PFloat r) = (r \<noteq> 0)"
| "truthy (PStr s) = (s \<noteq> [])"
| "truthy (PList xs) = (xs \<noteq> [])"
| "truthy (PDict d) = (d \<noteq> [])"

text \<open>
  Numbers: \<^verbatim>\<open>bool\<close> is a subtype of \<^verbatim>\<open>int\<close>, and comparisons between \<^verbatim>\<open>bool\<close>,
  \<^verbatim>\<open>int\<close> and \<^verbatim>\<open>float\<close> compare the numeric values. \<^verbatim>\<open>x == c\<close> for a numeric
  constant \<^verbatim>\<open>c\<close> holds exactly for the numbers of that value; \<^verbatim>\<open>x < c\<close> and
  \<^verbatim>\<open>x > c\<close> raise \<^verbatim>\<open>TypeError\<close> when \<^verbatim>\<open>x\<close> is not a number.
\<close>

fun num_of :: "pyval \<Rightarrow> real option" where
  "num_of (PBool b) = Some (if b then 1 else 0)"
| "num_of (PInt i) = Some (real_of_int i)"
| "num_of (PFloat r) = Some r"
| "num_of _ = None"

definition eq_num :: "pyval \<Rightarrow> real \<Rightarrow> bool" where
  "eq_num v c = (num_of v = Some c)"

definition py_gt :: "pyval \<Rightarrow> real \<Rightarrow> py_error + bool" where
  "py_gt v c = (case num_of v of None \<Rightarrow> Inl TypeError | Some x \<Rightarrow> Inr (x > c))"

text \<open>\<^verbatim>\<open>x in ["A", "B", ...]\<close> for a list of string constants.\<close>

definition in_strs :: "pyval \<Rightarrow> string list \<Rightarrow> bool" where
  "in_strs v ss = (v \<in> set (map PStr ss))"

text \<open>
  \<^verbatim>\<open>x[0]\<close>: the first item of a list or string; a dictionary with string keys has no
  key \<^verbatim>\<open>0\<close>; the other values are not subscriptable.
\<close>

fun index0 :: "pyval \<Rightarrow> py_error + pyval" where
  "index0 (PList []) = Inl IndexError"
| "index0 (PList (x # xs)) = Inr x"
| "index0 (PStr []) = Inl IndexError"
| "index0 (PStr (c # cs)) = Inr (PStr [c])"
| "index0 (PDict d) = Inl KeyError"
| "index0 _ = Inl TypeError"

text \<open>
  String formatting is Python's own and not part of the repository: the text that an
  f-string produces for a value (\<^verbatim>\<open>{x}\<close>) and for a number with one decimal
  (\<^verbatim>\<open>{x:.1f}\<close>) are parameters of the model.
\<close>

record formatter =
  fmt_str :: "pyval \<Rightarrow> string"
  fmt_1f :: "real \<Rightarrow> string"

section \<open>The priority cascade (adaptive/priority_cascade.py)\<close>

text \<open>
  Phase 1, \<^verbatim>\<open>_check_safety_constraints\<close>. The result is \<open>None\<close> when no safety action
  is produced.
\<close>

definition high_fatigue_check :: "pydict \<Rightarrow> pydict option" where
  "high_fatigue_check fatigue =
     (if eq_num (dict_get fatigue ''fatigue_level'') 3 then
        Some [(''action'', PStr ''HIGH_FATIGUE''),
              (''severity'', PStr ''HIGH''),
              (''fatigue_pct'', dict_get fatigue ''fatigue_pct''),
              (''recommendation'',
                 PStr ''Recommend driver rest, pit for evaluation, or abort race''),
              (''reason'', PStr ''Driver fatigue at critical level'')]
      else None)"

definition medical_alert_action :: "pydict \<Rightarrow> pydict" where
  "medical_alert_action alert0 =
     [(''action'', PStr ''MEDICAL_ALERT''),
      (''severity'',
         PStr (if dict_get alert0 ''severity'' = PStr ''CRITICAL'' then ''CRITICAL'' else ''HIGH'')),
      (''recommendation'', dict_get alert0 ''action''),
      (''reason'', dict_get alert0 ''alert'')]"

definition anomaly_action :: "formatter \<Rightarrow> pydict \<Rightarrow> pydict" where
  "anomaly_action F anomaly =
     [(''action'', PStr ''ANOMALY_DETECTED''),
      (''type'', dict_get anomaly ''anomaly_type''),
      (''severity'',
         PStr (if dict_get anomaly ''severity'' = PStr ''CRITICAL'' then ''CRITICAL'' else ''HIGH'')),
      (''recommendation'', dict_get anomaly ''action_recommend''),
      (''reason'', PStr (''Anomaly: '' @ fmt_str F (dict_get anomaly ''anomaly_type'')))]"

definition check_safety_constraints ::
  "formatter \<Rightarrow> pydict \<Rightarrow> pydict \<Rightarrow> py_error + pydict option" where
  "check_safety_constraints F model_results race_context =
     (case as_dict (dict_get_default model_results ''anomaly'' (PDict [])) of
        Inl e \<Rightarrow> Inl e
      | Inr anomaly \<Rightarrow>
          if truthy (dict_get anomaly ''anomaly_detected'') then
            Inr (Some (anomaly_action F anomaly))
          else
            (case as_dict (dict_get_default model_results ''fatigue'' (PDict [])) of
               Inl e \<Rightarrow> Inl e
             | Inr fatigue \<Rightarrow>
                 if truthy (dict_get fatigue ''medical_alerts'') then
                   (let alerts = dict_get_default fatigue ''medical_alerts'' (PList []) in
                    if truthy alerts then
                      (case index0 alerts of
                         Inl e \<Rightarrow> Inl e
                       | Inr first \<Rightarrow>
                           (case as_dict first of
                              Inl e \<Rightarrow> Inl e
                            | Inr alert0 \<Rightarrow> Inr (Some (medical_alert_action alert0))))
                    else Inr (high_fatigue_check fatigue))
                 else Inr (high_fatigue_check fatigue)))"

text \<open>Phase 2, \<^verbatim>\<open>_check_energy_constraints\<close>.\<close>

definition check_energy_constraints ::
  "formatter \<Rightarrow> pydict \<Rightarrow> pydict \<Rightarrow> py_error + pydict option" where
  "check_energy_constraints F model_results race_context =
     (case as_dict (dict_get_default model_results ''energy'' (PDict [])) of
        Inl e \<Rightarrow> Inl e
      | Inr energy \<Rightarrow>
          if eq_num (dict_get energy ''will_finish'') 0 then
            Inr (Some
              [(''action'', PStr ''DNF_RISK''),
               (''severity'', PStr ''CRITICAL''),
               (''predicted_final_soc'', dict_get energy ''predicted_final_soc''),
               (''margin'', dict_get energy ''margin''),
               (''recommendation'',
                  PStr ''Reduce speed 20%, maximize coasting, pit for energy strategy review''),
               (''reason'', PStr ''Vehicle will not finish race at current pace'')])
          else
            (case num_of (dict_get energy ''margin'') of
               None \<Rightarrow> Inl TypeError
             | Some m \<Rightarrow>
                 if m < 10 then
                   Inr (Some
                     [(''action'', PStr ''LOW_ENERGY_MARGIN''),
                      (''severity'', PStr ''HIGH''),
                      (''predicted_final_soc'', dict_get energy ''predicted_final_soc''),
                      (''margin'', dict_get energy ''margin''),
                      (''recommendation'',
                         PStr ''Reduce speed 10%, increase coast ratio +15%, plan pit strategy''),
                      (''reason'',
                         PStr (''Energy margin only '' @ fmt_1f F m @ ''%, risk of DNF''))])
                 else Inr None))"

text \<open>
  Phase 3, \<^verbatim>\<open>_recommend_performance_optimization\<close>. An action of an earlier phase is a
  dictionary or \<open>None\<close>; \<^verbatim>\<open>if safety_action or energy_action\<close> tests their truth
  values. The threshold \<^verbatim>\<open>0.7\<close> is the double nearest to 7/10, which lies below 7/10
  with no double in between, so on floats the comparison agrees with the one on reals.
\<close>

definition truthy_action :: "pydict option \<Rightarrow> bool" where
  "truthy_action a = (case a of None \<Rightarrow> False | Some d \<Rightarrow> truthy (PDict d))"

definition racing_line_recs :: "pydict \<Rightarrow> py_error + pyval list" where
  "racing_line_recs racing_line =
     (case py_gt (dict_get_default racing_line ''confidence'' (PInt 0)) (7 / 10) of
        Inl e \<Rightarrow> Inl e
      | Inr b \<Rightarrow>
          Inr (if b then
                 [PDict [(''type'', PStr ''RACING_LINE''),
                         (''recommendation'', dict_get racing_line ''recommendation''),
                         (''confidence'', dict_get racing_line ''confidence'')]]
               else []))"

definition efficiency_recs :: "pydict \<Rightarrow> py_error + pyval list" where
  "efficiency_recs efficiency =
     (case py_gt (dict_get_default efficiency ''efficiency_gain'' (PInt 0)) 2 of
        Inl e \<Rightarrow> Inl e
      | Inr b \<Rightarrow>
          Inr (if b then
                 [PDict [(''type'', PStr ''THROTTLE_OPTIMIZATION''),
                         (''recommendation'', dict_get efficiency ''recommendation''),
                         (''efficiency_gain'', dict_get efficiency ''efficiency_gain'')]]
               else []))"

definition slip_coast_recs :: "pydict \<Rightarrow> py_error + pyval list" where
  "slip_coast_recs slip_coast =
     (if truthy (dict_get slip_coast ''slip_detected'') then
        Inr [PDict [(''type'', PStr ''TRACTION_CONTROL''),
                    (''recommendation'', dict_get slip_coast ''recommendation''),
                    (''severity'', dict_get slip_coast ''slip_severity'')]]
      else
        (case py_gt (dict_get_default slip_coast ''optimal_coast_ratio'' (PInt 0)) 50 of
           Inl e \<Rightarrow> Inl e
         | Inr b \<Rightarrow>
             Inr (if b then
                    [PDict [(''type'', PStr ''COASTING_OPTIMIZATION''),
                            (''recommendation'', dict_get slip_coast ''recommendation''),
                            (''coast_ratio'', dict_get slip_coast ''optimal_coast_ratio'')]]
                  else [])))"

definition recommend_performance_optimization ::
  "pydict \<Rightarrow> pydict \<Rightarrow> pydict option \<Rightarrow> pydict option \<Rightarrow> py_error + pydict option" where
  "recommend_performance_optimization model_results race_context safety_action energy_action =
     (if truthy_action safety_action \<or> truthy_action energy_action then Inr None
      else
        (let race_phase = dict_get_default race_context ''race_phase'' (PStr ''UNKNOWN'') in
         case as_dict (dict_get_default model_results ''racing_line'' (PDict [])) of
           Inl e \<Rightarrow> Inl e
         | Inr racing_line \<Rightarrow>
         (case racing_line_recs racing_line of
           Inl e \<Rightarrow> Inl e
         | Inr acts1 \<Rightarrow>
         (case as_dict (dict_get_default model_results ''efficiency'' (PDict [])) of
           Inl e \<Rightarrow> Inl e
         | Inr efficiency \<Rightarrow>
         (case efficiency_recs efficiency of
           Inl e \<Rightarrow> Inl e
         | Inr acts2 \<Rightarrow>
         (case as_dict (dict_get_default model_results ''slip_coast'' (PDict [])) of
           Inl e \<Rightarrow> Inl e
         | Inr slip_coast \<Rightarrow>
         (case slip_coast_recs slip_coast of
           Inl e \<Rightarrow> Inl e
         | Inr acts3 \<Rightarrow>
             (let actions = acts1 @ acts2 @ acts3 in
              if actions = [] then Inr None
              else Inr (Some
                [(''action'', PStr ''PERFORMANCE_OPTIMIZATION''),
                 (''severity'', PStr ''NORMAL''),
                 (''phase_specific_recommendations'', PList actions),
                 (''race_phase'', race_phase)])))))))))"

text \<open>
  \<^verbatim>\<open>apply_priority_cascade\<close>. The returned dictionary has one of two shapes: the early
  return on a critical safety action, and the consolidated return.
\<close>

definition append_action :: "pydict list \<Rightarrow> pydict option \<Rightarrow> pydict list" where
  "append_action actions a =
     (case a of None \<Rightarrow> actions
      | Some d \<Rightarrow> if truthy (PDict d) then actions @ [d] else actions)"

definition count_alerts :: "pydict list \<Rightarrow> int" where
  "count_alerts actions =
     int (length (filter (\<lambda>a. in_strs (dict_get a ''severity'') [''CRITICAL'', ''HIGH'', ''WARNING''])
                         actions))"

definition consolidate ::
  "pydict \<Rightarrow> pydict list \<Rightarrow> pyval \<Rightarrow> pydict" where
  "consolidate race_context actions severity_level =
     [(''primary_action'',
         PDict (case actions of [] \<Rightarrow> [(''action'', PStr ''NORMAL_OPERATION'')] | a # _ \<Rightarrow> a)),
      (''cascade_actions'', PList (map PDict actions)),
      (''severity'', severity_level),
      (''race_context'', PDict race_context),
      (''count_alerts'', PInt (count_alerts actions))]"

text \<open>
  Phases 2 and 3 and the consolidation: the part of \<^verbatim>\<open>apply_priority_cascade\<close> after
  the safety phase, run with the actions and the severity level that phase 1 has left.
\<close>

definition energy_and_performance ::
  "formatter \<Rightarrow> pydict \<Rightarrow> pydict \<Rightarrow> pydict option \<Rightarrow> pydict list \<Rightarrow> pyval
     \<Rightarrow> py_error + pydict" where
  "energy_and_performance F model_results race_context safety_action actions severity_level =
     (case check_energy_constraints F model_results race_context of
        Inl e \<Rightarrow> Inl e
      | Inr energy_action \<Rightarrow>
          (let actions2 = append_action actions energy_action;
               severity2 =
                 (case energy_action of
                    None \<Rightarrow> severity_level
                  | Some ea \<Rightarrow>
                      if truthy (PDict ea) \<and>
                         in_strs (dict_get ea ''severity'') [''CRITICAL'', ''HIGH'']
                      then PStr ''WARNING'' else severity_level)
           in
           case recommend_performance_optimization
                  model_results race_context safety_action energy_action of
             Inl e \<Rightarrow> Inl e
           | Inr performance_action \<Rightarrow>
               Inr (consolidate race_context
                      (append_action actions2 performance_action) severity2)))"

definition apply_priority_cascade ::
  "formatter \<Rightarrow> pydict \<Rightarrow> pydict \<Rightarrow> py_error + pydict" where
  "apply_priority_cascade F model_results race_context =
     (case check_safety_constraints F model_results race_context of
        Inl e \<Rightarrow> Inl e
      | Inr safety_action \<Rightarrow>
          (case safety_action of
             None \<Rightarrow>
               energy_and_performance F model_results race_context safety_action
                 [] (PStr ''NORMAL'')
           | Some sa \<Rightarrow>
               if truthy (PDict sa) then
                 (let severity_level = dict_get_default sa ''severity'' (PStr ''WARNING'') in
                  if in_strs severity_level [''CRITICAL'', ''EMERGENCY''] then
                    Inr [(''primary_action'', PDict sa),
                         (''actions'', PList [PDict sa]),
                         (''reason'', PStr ''SAFETY OVERRIDE''),
                         (''severity'', severity_level)]
                  else
                    energy_and_performance F model_results race_context safety_action
                      [sa] severity_level)
               else
                 energy_and_performance F model_results race_context safety_action
                   [] (PStr ''NORMAL'')))"

section \<open>Telemetry validation (utils/data_validators.py)\<close>

text \<open>
  Telemetry is a dictionary or a pandas \<^verbatim>\<open>DataFrame\<close>. Of a frame the validation looks
  at its columns only: which cells are null and whether the column has a numeric dtype.
  A column is kept as its name, that dtype flag and the null flag of each row.
\<close>

record column =
  col_name :: string
  col_numeric :: bool
  col_isnull :: "bool list"

datatype telemetry =
    TelemetryDict pydict
  | TelemetryFrame "column list"
  | TelemetryOther

definition required_keys :: "string list" where
  "required_keys = [''soc_current'', ''speed_avg'', ''motor_temp'']"

fun validate_telemetry :: "telemetry \<Rightarrow> bool" where
  "validate_telemetry (TelemetryDict d) = list_all (\<lambda>k. k \<in> set (map fst d)) required_keys"
| "validate_telemetry (TelemetryFrame cols) =
     (if list_ex (\<lambda>c. list_all (\<lambda>b. b) (col_isnull c)) cols then False
      else if length (filter col_numeric cols) = 0 then False
      else True)"
| "validate_telemetry TelemetryOther = False"

section \<open>The inference engine (inference/inference_engine.py)\<close>

text \<open>
  The eight predictors are external: \<open>outcome P k m t\<close> is what the body of
  \<^verbatim>\<open>_run_<k>_inference\<close> does once the model \<open>m\<close> is found (it prepares the arguments
  and calls the predictor), either raising an exception or returning a value, and
  \<open>latency P k\<close> is the wall-clock time in seconds that the call of
  \<^verbatim>\<open>_run_<k>_inference\<close> takes in this cycle, from the reading \<^verbatim>\<open>model_start\<close> to
  the return of the call.

  The clock also runs outside these calls. \<open>startup P\<close> is the time between the reading
  of \<^verbatim>\<open>start_time\<close> and the first budget check (the telemetry is validated in
  between); \<open>before_call P k\<close> is the time between the budget check of the iteration for
  \<open>k\<close> and its reading \<^verbatim>\<open>model_start\<close>; \<open>after_call P k\<close> is the time between the
  return of the call and the next budget check, or the end of the loop; \<open>wrapup P\<close> is
  the time between the end of the loop and the last reading of the clock (the cascade
  runs in between). All are given in seconds by the environment of the cycle.
\<close>

record 'm predictors =
  outcome :: "string \<Rightarrow> 'm \<Rightarrow> telemetry \<Rightarrow> py_error + pyval"
  latency :: "string \<Rightarrow> real"
  startup :: real
  before_call :: "string \<Rightarrow> real"
  after_call :: "string \<Rightarrow> real"
  wrapup :: real

record 'm engine =
  models :: "(string \<times> 'm) list"
  inference_times :: "(string \<times> real) list"

definition priority_order :: "string list" where
  "priority_order =
     [''anomaly'', ''fatigue'', ''energy'', ''h2_purge'',
      ''racing_line'', ''slip_coast'', ''efficiency'', ''rank'']"

text \<open>
  Each \<^verbatim>\<open>_run_<k>_inference\<close> has the same frame: look the model up, return \<open>None\<close>
  when there is none, call the predictor, and return \<open>None\<close> on any exception.
\<close>

definition run_inference ::
  "'m predictors \<Rightarrow> (string \<times> 'm) list \<Rightarrow> string \<Rightarrow> telemetry \<Rightarrow> pyval" where
  "run_inference P ms key telemetry =
     (case map_of ms key of
        None \<Rightarrow> PNone
      | Some model \<Rightarrow>
          (case outcome P key model telemetry of
             Inl e \<Rightarrow> PNone
           | Inr result \<Rightarrow> result))"

definition run_anomaly_inference ::
  "'m predictors \<Rightarrow> (string \<times> 'm) list \<Rightarrow> telemetry \<Rightarrow> pyval" where
  "run_anomaly_inference P ms telemetry = run_inference P ms ''anomaly'' telemetry"

definition run_fatigue_inference ::
  "'m predictors \<Rightarrow> (string \<times> 'm) list \<Rightarrow> telemetry \<Rightarrow> pyval" where
  "run_fatigue_inference P ms telemetry = run_inference P ms ''fatigue'' telemetry"

definition run_energy_inference ::
  "'m predictors \<Rightarrow> (string \<times> 'm) list \<Rightarrow> telemetry \<Rightarrow> pyval" where
  "run_energy_inference P ms telemetry = run_inference P ms ''energy'' telemetry"

definition run_h2_purge_inference ::
  "'m predictors \<Rightarrow> (string \<times> 'm) list \<Rightarrow> telemetry \<Rightarrow> pyval" where
  "run_h2_purge_inference P ms telemetry = run_inference P ms ''h2_purge'' telemetry"

definition run_racing_line_inference ::
  "'m predictors \<Rightarrow> (string \<times> 'm) list \<Rightarrow> telemetry \<Rightarrow> pyval" where
  "run_racing_line_inference P ms telemetry = run_inference P ms ''racing_line'' telemetry"

definition run_slip_coast_inference ::
  "'m predictors \<Rightarrow> (string \<times> 'm) list \<Rightarrow> telemetry \<Rightarrow> pyval" where
  "run_slip_coast_inference P ms telemetry = run_inference P ms ''slip_coast'' telemetry"

definition run_efficiency_inference ::
  "'m predictors \<Rightarrow> (string \<times> 'm) list \<Rightarrow> telemetry \<Rightarrow> pyval" where
  "run_efficiency_inference P ms telemetry = run_inference P ms ''efficiency'' telemetry"

definition run_rank_inference ::
  "'m predictors \<Rightarrow> (string \<times> 'm) list \<Rightarrow> telemetry \<Rightarrow> pyval" where
  "run_rank_inference P ms telemetry = run_inference P ms ''rank'' telemetry"

text \<open>The \<^verbatim>\<open>if\<close>/\<^verbatim>\<open>elif\<close> chain of the loop body that picks the method by name.\<close>

definition run_model ::
  "'m predictors \<Rightarrow> (string \<times> 'm) list \<Rightarrow> telemetry \<Rightarrow> string \<Rightarrow> pyval" where
  "run_model P ms telemetry model_name =
     (if model_name = ''anomaly'' then run_anomaly_inference P ms telemetry
      else if model_name = ''fatigue'' then run_fatigue_inference P ms telemetry
      else if model_name = ''energy'' then run_energy_inference P ms telemetry
      else if model_name = ''h2_purge'' then run_h2_purge_inference P ms telemetry
      else if model_name = ''racing_line'' then run_racing_line_inference P ms telemetry
      else if model_name = ''slip_coast'' then run_slip_coast_inference P ms telemetry
      else if model_name = ''efficiency'' then run_efficiency_inference P ms telemetry
      else if model_name = ''rank'' then run_rank_inference P ms telemetry
      else PNone)"

text \<open>
  The state of one cycle: the results collected so far, the engine's latency table, the
  clock, and the names for which the loop body has run (a trace that the code does not
  keep; it is there to state which predictors were attempted).
\<close>

record cycle =
  results :: pydict
  times :: "(string \<times> real) list"
  clock :: real
  attempted :: "string list"

text \<open>
  The body of the \<^verbatim>\<open>for\<close> loop after the budget check, entered with the clock at the
  reading of that check: read \<^verbatim>\<open>model_start\<close>, run the predictor, and store its result
  and its latency when the result is true. The state is left with the clock at the next
  budget check.
\<close>

definition attempt_model ::
  "'m predictors \<Rightarrow> (string \<times> 'm) list \<Rightarrow> telemetry \<Rightarrow> string \<Rightarrow> cycle \<Rightarrow> cycle" where
  "attempt_model P ms telemetry model_name s =
     (let model_start = clock s + before_call P model_name;
          result = run_model P ms telemetry model_name;
          now = model_start + latency P model_name;
          s1 = s\<lparr>clock := now + after_call P model_name,
                 attempted := attempted s @ [model_name]\<rparr>
      in if truthy result
         then s1\<lparr>results := dict_set (results s1) model_name result,
                 times := dict_set (times s1) model_name (now - model_start)\<rparr>
         else s1)"

text \<open>The time from one budget check to the next, through the iteration for \<open>k\<close>.\<close>

definition iteration_time :: "'m predictors \<Rightarrow> string \<Rightarrow> real" where
  "iteration_time P k = before_call P k + latency P k + after_call P k"

text \<open>
  The \<^verbatim>\<open>for\<close> loop over the priority order, with its \<^verbatim>\<open>break\<close> when the time since
  \<open>start_time\<close> exceeds the budget.
\<close>

fun run_models ::
  "'m predictors \<Rightarrow> (string \<times> 'm) list \<Rightarrow> telemetry \<Rightarrow> real \<Rightarrow> real \<Rightarrow> string list
     \<Rightarrow> cycle \<Rightarrow> cycle" where
  "run_models P ms telemetry start_time inference_budget [] s = s"
| "run_models P ms telemetry start_time inference_budget (model_name # rest) s =
     (if clock s - start_time > inference_budget then s
      else run_models P ms telemetry start_time inference_budget rest
             (attempt_model P ms telemetry model_name s))"

definition generate_fallback_response :: "string \<Rightarrow> pydict" where
  "generate_fallback_response reason =
     [(''status'', PStr ''FALLBACK''),
      (''reason'', PStr reason),
      (''recommendations'',
         PList [PStr ''Monitor systems manually'',
                PStr ''Reduce speed to safe level'',
                PStr ''Pit for inspection if needed'']),
      (''models_executed'', PList [])]"

text \<open>
  \<^verbatim>\<open>run_real_time_inference\<close>, entered when the clock reads \<open>now\<close>, which becomes
  \<^verbatim>\<open>start_time\<close>. The loop is entered \<open>startup P\<close> later. The method returns the
  decision or the exception that leaves it, together with the state of the cycle at the
  end of the loop (whose \<open>times\<close> are the engine's \<^verbatim>\<open>inference_times\<close> afterwards).
\<close>

definition run_real_time_inference ::
  "formatter \<Rightarrow> 'm predictors \<Rightarrow> 'm engine \<Rightarrow> real \<Rightarrow> telemetry \<Rightarrow> pydict \<Rightarrow> int
     \<Rightarrow> (py_error + pydict) \<times> cycle" where
  "run_real_time_inference F P eng now telemetry race_context timeout_ms =
     (let start_time = now;
          s0 = \<lparr>results = [], times = inference_times eng, clock = now, attempted = []\<rparr>
      in
      if \<not> validate_telemetry telemetry then
        (Inr (generate_fallback_response ''Invalid telemetry''), s0)
      else
        (let inference_budget = real_of_int timeout_ms / 1000;
             s = run_models P (models eng) telemetry start_time inference_budget
                   priority_order (s0\<lparr>clock := now + startup P\<rparr>)
         in
         case apply_priority_cascade F (results s) race_context of
           Inl e \<Rightarrow> (Inl e, s)
         | Inr final_decision \<Rightarrow>
             (Inr (dict_set
                     (dict_set final_decision ''total_inference_ms''
                        (PFloat ((clock s + wrapup P - start_time) * 1000)))
                     ''models_executed'' (PList (map (\<lambda>kv. PStr (fst kv)) (results s)))),
              s)))"

section \<open>The race phase (adaptive/context_manager.py)\<close>

text \<open>
  \<^verbatim>\<open>determine_race_phase\<close> computes the phase from the two lap numbers, stores it in the
  manager's context and returns it. The stored context is not read on the way, so the
  returned phase is given as a function of the two arguments.
\<close>

definition determine_race_phase :: "int \<Rightarrow> int \<Rightarrow> string" where
  "determine_race_phase current_lap total_laps =
     (if current_lap = 0 then ''PRACTICE''
      else if current_lap \<le> 2 then ''EARLY''
      else if current_lap = 3 then ''MID''
      else if current_lap = total_laps then ''LATE''
      else if current_lap > total_laps then ''FINISH''
      else ''UNKNOWN'')"

section \<open>Notions used in the properties\<close>

text \<open>
  The list of actions of a decision: the consolidated return stores it under
  \<^verbatim>\<open>cascade_actions\<close>, the early return under \<^verbatim>\<open>actions\<close>.
\<close>

definition all_actions :: "pydict \<Rightarrow> pyval list" where
  "all_actions d =
     (case map_of d ''cascade_actions'' of
        Some (PList acts) \<Rightarrow> acts
      | _ \<Rightarrow> (case map_of d ''actions'' of Some (PList acts) \<Rightarrow> acts | _ \<Rightarrow> []))"

definition action_kind :: "pyval \<Rightarrow> pyval" where
  "action_kind a = (case a of PDict d \<Rightarrow> dict_get d ''action'' | _ \<Rightarrow> PNone)"

definition has_action :: "pydict \<Rightarrow> string \<Rightarrow> bool" where
  "has_action d k = (PStr k \<in> set (map action_kind (all_actions d)))"

text \<open>
  The result set has an energy entry that says the vehicle will not finish, or whose
  margin is a number below 10.
\<close>

definition energy_at_risk :: "pydict \<Rightarrow> bool" where
  "energy_at_risk model_results =
     (case map_of model_results ''energy'' of
        Some (PDict energy) \<Rightarrow>
          eq_num (dict_get energy ''will_finish'') 0 \<or>
          (case num_of (dict_get energy ''margin'') of None \<Rightarrow> False | Some m \<Rightarrow> m < 10)
      | _ \<Rightarrow> False)"

text \<open>The result set has no anomaly entry, or one that reports no anomaly.\<close>

definition anomaly_undetected :: "pydict \<Rightarrow> bool" where
  "anomaly_undetected model_results =
     (case map_of model_results ''anomaly'' of
        None \<Rightarrow> True
      | Some (PDict anomaly) \<Rightarrow> \<not> truthy (dict_get anomaly ''anomaly_detected'')
      | Some _ \<Rightarrow> False)"


text \<open>
  The names that the loop reaches before its budget check fails, given the time that
  each iteration takes, the budget and the time elapsed at the first check. It describes
  the trace of \<open>run_models\<close> without the state (lemma \<open>run_models_attempted\<close> below).
\<close>

fun within_budget :: "(string \<Rightarrow> real) \<Rightarrow> real \<Rightarrow> real \<Rightarrow> string list \<Rightarrow> string list" where
  "within_budget lat b elapsed [] = []"
| "within_budget lat b elapsed (n # rest) =
     (if elapsed > b then [] else n # within_budget lat b (elapsed + lat n) rest)"

text \<open>Concrete inputs on which the properties are instantiated.\<close>

definition sample_format :: formatter where
  "sample_format = \<lparr>fmt_str = (\<lambda>v. ''value''), fmt_1f = (\<lambda>r. ''number'')\<rparr>"

definition sample_predictors :: "unit predictors" where
  "sample_predictors =
     \<lparr>outcome = (\<lambda>k m t.
         if k = ''energy'' then Inr (PDict [(''will_finish'', PBool True), (''margin'', PFloat 35)])
         else Inr (PDict [(''confidence'', PFloat (9 / 10))])),
      latency = (\<lambda>k. 13 / 1000),
      startup = 1 / 1000,
      before_call = (\<lambda>k. 1 / 100000),
      after_call = (\<lambda>k. 9 / 100000),
      wrapup = 1 / 1000\<rparr>"

definition failing_predictors :: "unit predictors" where
  "failing_predictors =
     sample_predictors\<lparr>outcome :=
       (\<lambda>k m t. if k = ''h2_purge'' then Inl KeyError else outcome sample_predictors k m t)\<rparr>"

definition slow_failing_predictors :: "unit predictors" where
  "slow_failing_predictors =
     sample_predictors\<lparr>outcome :=
       (\<lambda>k m t. if k = ''anomaly'' then Inl KeyError else outcome sample_predictors k m t),
       latency := (\<lambda>k. if k = ''anomaly'' then 200 / 1000 else 13 / 1000)\<rparr>"

definition instant_predictors :: "unit predictors" where
  "instant_predictors = sample_predictors\<lparr>latency := (\<lambda>k. 0)\<rparr>"

definition sample_engine :: "unit engine" where
  "sample_engine = \<lparr>models = map (\<lambda>k. (k, ())) priority_order, inference_times = []\<rparr>"

definition sample_telemetry :: telemetry where
  "sample_telemetry =
     TelemetryDict [(''soc_current'', PFloat 80), (''speed_avg'', PFloat 50),
                    (''motor_temp'', PFloat 60)]"


definition critical_anomaly_results :: pydict where
  "critical_anomaly_results =
     [(''anomaly'', PDict [(''anomaly_detected'', PBool True), (''severity'', PStr ''CRITICAL'')]),
      (''energy'', PDict [(''will_finish'', PBool False)])]"

definition medium_anomaly_results :: pydict where
  "medium_anomaly_results =
     [(''anomaly'', PDict [(''anomaly_detected'', PBool True), (''severity'', PStr ''MEDIUM'')]),
      (''energy'', PDict [(''will_finish'', PBool False)])]"

definition healthy_results :: pydict where
  "healthy_results =
     [(''energy'', PDict [(''will_finish'', PBool True), (''margin'', PFloat 35)]),
      (''racing_line'', PDict [(''confidence'', PFloat (79 / 100))]),
      (''efficiency'', PDict [(''efficiency_gain'', PFloat (23 / 10))])]"

definition dnf_results :: pydict where
  "dnf_results =
     [(''energy'', PDict [(''will_finish'', PBool False), (''margin'', PFloat (- 2))]),
      (''racing_line'', PDict [(''confidence'', PFloat (79 / 100))])]"

definition two_alerts :: "pyval list" where
  "two_alerts =
     [PDict [(''severity'', PStr ''HIGH''), (''alert'', PStr ''HIGH_HR''),
             (''action'', PStr ''MEDICAL_CONCERN: Elevated heart rate, monitor closely'')],
      PDict [(''severity'', PStr ''CRITICAL''), (''alert'', PStr ''HYPOXIA_RISK''),
             (''action'', PStr ''IMMEDIATE_ALERT: Check oxygen, open ventilation'')]]"

section \<open>Properties of the priority cascade\<close>

subsection \<open>The actions that the phases produce\<close>

lemma safety_action_shape:
  "check_safety_constraints F mr rc = Inr (Some sa) \<Longrightarrow>
     sa \<noteq> [] \<and>
     dict_get sa ''action'' \<in>
       {PStr ''ANOMALY_DETECTED'', PStr ''MEDICAL_ALERT'', PStr ''HIGH_FATIGUE''} \<and>
     dict_get sa ''severity'' \<in> {PStr ''CRITICAL'', PStr ''HIGH''}"
  by (auto simp: check_safety_constraints_def anomaly_action_def medical_alert_action_def
        high_fatigue_check_def dict_get_def Let_def split: sum.splits if_splits)

lemma energy_action_shape:
  "check_energy_constraints F mr rc = Inr (Some ea) \<Longrightarrow>
     ea \<noteq> [] \<and>
     dict_get ea ''action'' \<in> {PStr ''DNF_RISK'', PStr ''LOW_ENERGY_MARGIN''} \<and>
     dict_get ea ''severity'' \<in> {PStr ''CRITICAL'', PStr ''HIGH''}"
  by (auto simp: check_energy_constraints_def dict_get_def
        split: sum.splits if_splits option.splits)

lemma performance_action_shape:
  "recommend_performance_optimization mr rc sa ea = Inr (Some pa) \<Longrightarrow>
     pa \<noteq> [] \<and> dict_get pa ''action'' = PStr ''PERFORMANCE_OPTIMIZATION'' \<and>
     dict_get pa ''severity'' = PStr ''NORMAL'' \<and>
     \<not> truthy_action sa \<and> \<not> truthy_action ea"
  by (auto simp: recommend_performance_optimization_def dict_get_def Let_def
        split: sum.splits if_splits)

lemma safety_kind_not_performance:
  "check_safety_constraints F mr rc = Inr (Some a) \<Longrightarrow>
     action_kind (PDict a) \<noteq> PStr ''PERFORMANCE_OPTIMIZATION''"
  using safety_action_shape[of F mr rc a] by (auto simp: action_kind_def)

lemma energy_kind_not_performance:
  "check_energy_constraints F mr rc = Inr (Some a) \<Longrightarrow>
     action_kind (PDict a) \<noteq> PStr ''PERFORMANCE_OPTIMIZATION''"
  using energy_action_shape[of F mr rc a] by (auto simp: action_kind_def)

lemma energy_at_risk_action:
  assumes "energy_at_risk mr"
  shows "\<exists>a. check_energy_constraints F mr rc = Inr (Some a)"
  using assms
  by (auto simp: energy_at_risk_def check_energy_constraints_def dict_get_default_def
      split: option.splits pyval.splits)

lemma append_action_None: "append_action acts None = acts"
  by (simp add: append_action_def)

lemma append_action_Some:
  "append_action acts (Some a) = (if a = [] then acts else acts @ [a])"
  by (simp add: append_action_def)

lemma all_actions_consolidate:
  "all_actions (consolidate rc acts sev) = map PDict acts"
  by (simp add: all_actions_def consolidate_def)

subsection \<open>The two ways in which the cascade returns\<close>

lemma energy_and_performance_actions:
  assumes "energy_and_performance F mr rc sa acts sev = Inr d"
  shows "\<exists>ea pa. check_energy_constraints F mr rc = Inr ea
            \<and> recommend_performance_optimization mr rc sa ea = Inr pa
            \<and> all_actions d = map PDict (append_action (append_action acts ea) pa)"
  using assms
  by (auto simp: energy_and_performance_def Let_def all_actions_consolidate split: sum.splits)

lemma cascade_cases:
  assumes "apply_priority_cascade F mr rc = Inr d"
  shows "\<exists>sa. check_safety_constraints F mr rc = Inr sa \<and>
           ((\<exists>a. sa = Some a \<and> all_actions d = [PDict a]) \<or>
            (\<exists>ea pa. check_energy_constraints F mr rc = Inr ea
                \<and> recommend_performance_optimization mr rc sa ea = Inr pa
                \<and> all_actions d =
                    map PDict (append_action (append_action (append_action [] sa) ea) pa)))"
proof (cases "check_safety_constraints F mr rc")
  case (Inl e)
  with assms show ?thesis by (simp add: apply_priority_cascade_def)
next
  case (Inr sa)
  show ?thesis
  proof (cases sa)
    case None
    with Inr assms have "energy_and_performance F mr rc None [] (PStr ''NORMAL'') = Inr d"
      by (simp add: apply_priority_cascade_def)
    from energy_and_performance_actions[OF this] Inr None show ?thesis
      by (auto simp: append_action_None)
  next
    case (Some a)
    with Inr have ne: "a \<noteq> []" using safety_action_shape by blast
    show ?thesis
    proof (cases "in_strs (dict_get_default a ''severity'' (PStr ''WARNING''))
                    [''CRITICAL'', ''EMERGENCY'']")
      case True
      with Inr Some ne assms have "all_actions d = [PDict a]"
        by (auto simp: apply_priority_cascade_def Let_def all_actions_def)
      with Inr Some show ?thesis by simp
    next
      case False
      with Inr Some ne assms have
        "energy_and_performance F mr rc (Some a) [a]
           (dict_get_default a ''severity'' (PStr ''WARNING'')) = Inr d"
        by (simp add: apply_priority_cascade_def Let_def)
      from energy_and_performance_actions[OF this] Inr Some ne show ?thesis
        by (auto simp: append_action_Some)
    qed
  qed
qed

subsection \<open>Safety short-circuit\<close>

text \<open>
  Claim C1. When the result set has an anomaly entry that reports an anomaly with severity
  \<^verbatim>\<open>CRITICAL\<close>, the cascade returns a decision, whatever the race context and the other
  entries are (an energy entry may be missing or malformed): its list of actions is the
  single \<^verbatim>\<open>ANOMALY_DETECTED\<close> action, which is also the primary action, and its severity
  is \<^verbatim>\<open>CRITICAL\<close>. No action of phase 2 or 3 is in the list.
\<close>

theorem critical_anomaly_short_circuit:
  assumes "map_of model_results ''anomaly'' = Some (PDict anomaly)"
      and "truthy (dict_get anomaly ''anomaly_detected'')"
      and "dict_get anomaly ''severity'' = PStr ''CRITICAL''"
  shows "\<exists>d. apply_priority_cascade F model_results race_context = Inr d
            \<and> all_actions d = [PDict (anomaly_action F anomaly)]
            \<and> length (all_actions d) = 1
            \<and> map action_kind (all_actions d) = [PStr ''ANOMALY_DETECTED'']
            \<and> dict_get d ''severity'' = PStr ''CRITICAL''
            \<and> dict_get d ''primary_action'' = PDict (anomaly_action F anomaly)"
proof -
  have s: "check_safety_constraints F model_results race_context =
             Inr (Some (anomaly_action F anomaly))"
    using assms by (simp add: check_safety_constraints_def dict_get_default_def)
  have sev: "dict_get_default (anomaly_action F anomaly) ''severity'' (PStr ''WARNING'') =
               PStr ''CRITICAL''"
    using assms(3) by (simp add: anomaly_action_def dict_get_default_def)
  have ne: "anomaly_action F anomaly \<noteq> []" by (simp add: anomaly_action_def)
  have "apply_priority_cascade F model_results race_context =
          Inr [(''primary_action'', PDict (anomaly_action F anomaly)),
               (''actions'', PList [PDict (anomaly_action F anomaly)]),
               (''reason'', PStr ''SAFETY OVERRIDE''),
               (''severity'', PStr ''CRITICAL'')]"
    by (simp add: apply_priority_cascade_def s sev ne in_strs_def)
  moreover have "action_kind (PDict (anomaly_action F anomaly)) = PStr ''ANOMALY_DETECTED''"
    by (simp add: action_kind_def anomaly_action_def dict_get_def)
  ultimately show ?thesis
    by (simp add: all_actions_def dict_get_def)
qed

theorem critical_anomaly_short_circuit_witness:
  "map_of critical_anomaly_results ''anomaly'' =
     Some (PDict [(''anomaly_detected'', PBool True), (''severity'', PStr ''CRITICAL'')])
   \<and> truthy (dict_get [(''anomaly_detected'', PBool True), (''severity'', PStr ''CRITICAL'')]
                ''anomaly_detected'')
   \<and> dict_get [(''anomaly_detected'', PBool True), (''severity'', PStr ''CRITICAL'')]
        ''severity'' = PStr ''CRITICAL''
   \<and> (\<exists>d. apply_priority_cascade sample_format critical_anomaly_results [] = Inr d
          \<and> length (all_actions d) = 1
          \<and> map action_kind (all_actions d) = [PStr ''ANOMALY_DETECTED'']
          \<and> dict_get d ''severity'' = PStr ''CRITICAL'')"
proof -
  have m: "map_of critical_anomaly_results ''anomaly'' =
     Some (PDict [(''anomaly_detected'', PBool True), (''severity'', PStr ''CRITICAL'')])"
    by (simp add: critical_anomaly_results_def)
  have t: "truthy (dict_get [(''anomaly_detected'', PBool True), (''severity'', PStr ''CRITICAL'')]
                ''anomaly_detected'')"
    by (simp add: dict_get_def)
  have c: "dict_get [(''anomaly_detected'', PBool True), (''severity'', PStr ''CRITICAL'')]
        ''severity'' = PStr ''CRITICAL''"
    by (simp add: dict_get_def)
  from critical_anomaly_short_circuit[OF m t c, of sample_format "[]"] obtain d where
    d: "apply_priority_cascade sample_format critical_anomaly_results [] = Inr d"
       "length (all_actions d) = 1"
       "map action_kind (all_actions d) = [PStr ''ANOMALY_DETECTED'']"
       "dict_get d ''severity'' = PStr ''CRITICAL''"
    by (elim exE conjE)
  have "\<exists>d. apply_priority_cascade sample_format critical_anomaly_results [] = Inr d
          \<and> length (all_actions d) = 1
          \<and> map action_kind (all_actions d) = [PStr ''ANOMALY_DETECTED'']
          \<and> dict_get d ''severity'' = PStr ''CRITICAL''"
    using d by (intro exI[of _ d] conjI)
  with m t c show ?thesis by (intro conjI)
qed

subsection \<open>Gating of the performance phase\<close>

text \<open>
  Claim C3. In every decision that the cascade returns, a \<^verbatim>\<open>PERFORMANCE_OPTIMIZATION\<close>
  action is among the actions only if phase 1 and phase 2 both produced no action at all;
  in particular it is never there when the energy entry says that the vehicle will not
  finish or has a margin below 10.
\<close>

theorem performance_gated:
  assumes "apply_priority_cascade F model_results race_context = Inr d"
  shows "(has_action d ''PERFORMANCE_OPTIMIZATION'' \<longrightarrow>
            check_safety_constraints F model_results race_context = Inr None \<and>
            check_energy_constraints F model_results race_context = Inr None)
       \<and> (energy_at_risk model_results \<longrightarrow> \<not> has_action d ''PERFORMANCE_OPTIMIZATION'')"
proof -
  have gate: "check_safety_constraints F model_results race_context = Inr None \<and>
              check_energy_constraints F model_results race_context = Inr None"
    if h: "has_action d ''PERFORMANCE_OPTIMIZATION''"
  proof -
    from cascade_cases[OF assms] obtain sa where
      sa: "check_safety_constraints F model_results race_context = Inr sa" and
      alt: "(\<exists>a. sa = Some a \<and> all_actions d = [PDict a]) \<or>
            (\<exists>ea pa. check_energy_constraints F model_results race_context = Inr ea
                \<and> recommend_performance_optimization model_results race_context sa ea = Inr pa
                \<and> all_actions d =
                    map PDict (append_action (append_action (append_action [] sa) ea) pa))"
      by blast
    from alt show ?thesis
    proof
      assume "\<exists>a. sa = Some a \<and> all_actions d = [PDict a]"
      then obtain a where a: "sa = Some a" "all_actions d = [PDict a]" by blast
      with h have "action_kind (PDict a) = PStr ''PERFORMANCE_OPTIMIZATION''"
        by (simp add: has_action_def)
      with safety_kind_not_performance sa a show ?thesis by blast
    next
      assume "\<exists>ea pa. check_energy_constraints F model_results race_context = Inr ea
                \<and> recommend_performance_optimization model_results race_context sa ea = Inr pa
                \<and> all_actions d =
                    map PDict (append_action (append_action (append_action [] sa) ea) pa)"
      then obtain ea pa where
        ea: "check_energy_constraints F model_results race_context = Inr ea" and
        pa: "recommend_performance_optimization model_results race_context sa ea = Inr pa" and
        acts: "all_actions d =
                 map PDict (append_action (append_action (append_action [] sa) ea) pa)"
        by blast
      have "pa \<noteq> None"
      proof
        assume "pa = None"
        with acts h have
          "PStr ''PERFORMANCE_OPTIMIZATION'' \<in>
             action_kind ` PDict ` set (append_action (append_action [] sa) ea)"
          by (simp add: has_action_def append_action_None image_image)
        then show False
          using sa ea
          by (cases sa; cases ea)
             (auto simp: append_action_None append_action_Some split: if_splits
               dest: safety_kind_not_performance energy_kind_not_performance)
      qed
      then obtain p where "pa = Some p" by blast
      with pa performance_action_shape have nt: "\<not> truthy_action sa" "\<not> truthy_action ea"
        by blast+
      have "sa = None"
      proof (cases sa)
        case (Some a)
        with sa safety_action_shape have "a \<noteq> []" by blast
        with nt Some show ?thesis by (simp add: truthy_action_def)
      qed simp
      moreover have "ea = None"
      proof (cases ea)
        case (Some a)
        with ea energy_action_shape have "a \<noteq> []" by blast
        with nt Some show ?thesis by (simp add: truthy_action_def)
      qed simp
      ultimately show ?thesis using sa ea by simp
    qed
  qed
  moreover have "\<not> has_action d ''PERFORMANCE_OPTIMIZATION''"
    if r: "energy_at_risk model_results"
  proof
    assume "has_action d ''PERFORMANCE_OPTIMIZATION''"
    from gate[OF this] energy_at_risk_action[OF r, of F race_context] show False by auto
  qed
  ultimately show ?thesis by blast
qed

lemma healthy_decision:
  "\<exists>d. apply_priority_cascade sample_format healthy_results [] = Inr d
       \<and> has_action d ''PERFORMANCE_OPTIMIZATION''"
  by (simp add: apply_priority_cascade_def check_safety_constraints_def dict_get_default_def
        dict_get_def high_fatigue_check_def eq_num_def energy_and_performance_def
        check_energy_constraints_def recommend_performance_optimization_def truthy_action_def
        racing_line_recs_def efficiency_recs_def slip_coast_recs_def py_gt_def
        append_action_def consolidate_def all_actions_def action_kind_def has_action_def
        healthy_results_def Let_def)

lemma dnf_decision:
  "\<exists>d. apply_priority_cascade sample_format dnf_results [] = Inr d
       \<and> has_action d ''DNF_RISK''"
  by (simp add: apply_priority_cascade_def check_safety_constraints_def dict_get_default_def
        dict_get_def high_fatigue_check_def eq_num_def energy_and_performance_def
        check_energy_constraints_def recommend_performance_optimization_def truthy_action_def
        append_action_def consolidate_def all_actions_def action_kind_def has_action_def
        dnf_results_def Let_def)

theorem performance_gated_witness:
  "(\<exists>d. apply_priority_cascade sample_format healthy_results [] = Inr d
        \<and> has_action d ''PERFORMANCE_OPTIMIZATION''
        \<and> check_safety_constraints sample_format healthy_results [] = Inr None
        \<and> check_energy_constraints sample_format healthy_results [] = Inr None)
   \<and> (\<exists>d. apply_priority_cascade sample_format dnf_results [] = Inr d
        \<and> energy_at_risk dnf_results
        \<and> has_action d ''DNF_RISK''
        \<and> \<not> has_action d ''PERFORMANCE_OPTIMIZATION'')"
proof -
  from healthy_decision obtain d1 where
    d1: "apply_priority_cascade sample_format healthy_results [] = Inr d1" and
    h1: "has_action d1 ''PERFORMANCE_OPTIMIZATION''" by blast
  from dnf_decision obtain d2 where
    d2: "apply_priority_cascade sample_format dnf_results [] = Inr d2" and
    h2: "has_action d2 ''DNF_RISK''" by blast
  have r: "energy_at_risk dnf_results"
    by (simp add: energy_at_risk_def dnf_results_def dict_get_def eq_num_def)
  note g = performance_gated[OF d1, THEN conjunct1, THEN mp, OF h1]
  have g1:
    "check_safety_constraints sample_format healthy_results [] = Inr None"
    "check_energy_constraints sample_format healthy_results [] = Inr None"
    using g by (rule conjunct1, rule conjunct2)
  have g2: "\<not> has_action d2 ''PERFORMANCE_OPTIMIZATION''"
    using performance_gated[OF d2, THEN conjunct2, THEN mp, OF r] .
  have "\<exists>d. apply_priority_cascade sample_format healthy_results [] = Inr d
        \<and> has_action d ''PERFORMANCE_OPTIMIZATION''
        \<and> check_safety_constraints sample_format healthy_results [] = Inr None
        \<and> check_energy_constraints sample_format healthy_results [] = Inr None"
    using d1 h1 g1 by (intro exI[of _ d1] conjI)
  moreover have "\<exists>d. apply_priority_cascade sample_format dnf_results [] = Inr d
        \<and> energy_at_risk dnf_results
        \<and> has_action d ''DNF_RISK''
        \<and> \<not> has_action d ''PERFORMANCE_OPTIMIZATION''"
    using d2 r h2 g2 by (intro exI[of _ d2] conjI)
  ultimately show ?thesis by (intro conjI)
qed

subsection \<open>Medical alerts\<close>

text \<open>
  Claim C10. When no anomaly is detected and the fatigue entry carries a non-empty list
  of medical alerts, phase 1 emits a \<^verbatim>\<open>MEDICAL_ALERT\<close> action built from the first
  alert alone: its severity is \<^verbatim>\<open>CRITICAL\<close> if and only if the first alert's severity is
  \<^verbatim>\<open>CRITICAL\<close> and \<^verbatim>\<open>HIGH\<close> otherwise, and its recommendation and reason are the
  first alert's \<^verbatim>\<open>action\<close> and \<^verbatim>\<open>alert\<close>. The later alerts, critical or not, do not
  enter the action.
\<close>

theorem medical_alert_first_only:
  assumes "anomaly_undetected model_results"
      and "map_of model_results ''fatigue'' = Some (PDict fatigue)"
      and "map_of fatigue ''medical_alerts'' = Some (PList (PDict alert0 # later))"
  shows "check_safety_constraints F model_results race_context =
           Inr (Some [(''action'', PStr ''MEDICAL_ALERT''),
                      (''severity'',
                         PStr (if dict_get alert0 ''severity'' = PStr ''CRITICAL''
                               then ''CRITICAL'' else ''HIGH'')),
                      (''recommendation'', dict_get alert0 ''action''),
                      (''reason'', dict_get alert0 ''alert'')])"
  using assms
  by (auto simp: anomaly_undetected_def check_safety_constraints_def dict_get_default_def
        dict_get_def medical_alert_action_def split: option.splits pyval.splits)

theorem medical_alert_first_only_witness:
  "anomaly_undetected [(''fatigue'', PDict [(''medical_alerts'', PList two_alerts)])]
   \<and> map_of [(''fatigue'', PDict [(''medical_alerts'', PList two_alerts)])] ''fatigue'' =
       Some (PDict [(''medical_alerts'', PList two_alerts)])
   \<and> map_of [(''medical_alerts'', PList two_alerts)] ''medical_alerts'' =
       Some (PList (hd two_alerts # tl two_alerts))
   \<and> check_safety_constraints sample_format
        [(''fatigue'', PDict [(''medical_alerts'', PList two_alerts)])] [] =
       Inr (Some [(''action'', PStr ''MEDICAL_ALERT''),
                  (''severity'', PStr ''HIGH''),
                  (''recommendation'',
                     PStr ''MEDICAL_CONCERN: Elevated heart rate, monitor closely''),
                  (''reason'', PStr ''HIGH_HR'')])"
proof -
  have a: "anomaly_undetected [(''fatigue'', PDict [(''medical_alerts'', PList two_alerts)])]"
    by (simp add: anomaly_undetected_def)
  have f: "map_of [(''fatigue'', PDict [(''medical_alerts'', PList two_alerts)])] ''fatigue'' =
       Some (PDict [(''medical_alerts'', PList two_alerts)])"
    by simp
  have m: "map_of [(''medical_alerts'', PList two_alerts)] ''medical_alerts'' =
       Some (PList (PDict [(''severity'', PStr ''HIGH''), (''alert'', PStr ''HIGH_HR''),
             (''action'', PStr ''MEDICAL_CONCERN: Elevated heart rate, monitor closely'')]
         # tl two_alerts))"
    by (simp add: two_alerts_def)
  from medical_alert_first_only[OF a f m, of sample_format "[]"] a f m
  show ?thesis by (simp add: dict_get_def two_alerts_def)
qed

subsection \<open>A missing energy margin\<close>

lemma cascade_no_results: "apply_priority_cascade F [] rc = Inl TypeError"
  by (simp add: apply_priority_cascade_def check_safety_constraints_def dict_get_default_def
        dict_get_def high_fatigue_check_def eq_num_def energy_and_performance_def
        check_energy_constraints_def)

subsection \<open>Severity after an energy action\<close>

text \<open>
  Claim C5 says that an energy action of severity \<^verbatim>\<open>CRITICAL\<close> or \<^verbatim>\<open>HIGH\<close> raises
  the overall severity to at least \<^verbatim>\<open>WARNING\<close> and never lowers what phase 1 has
  set. The code assigns \<^verbatim>\<open>WARNING\<close> whatever the level was: for a non-critical anomaly
  (safety severity \<^verbatim>\<open>HIGH\<close>) together with an energy entry that will not finish, the
  decision holds both actions and the overall severity \<^verbatim>\<open>WARNING\<close>.
\<close>

theorem energy_action_lowers_high_safety_severity:
  "check_safety_constraints sample_format medium_anomaly_results [] =
     Inr (Some (anomaly_action sample_format
                  [(''anomaly_detected'', PBool True), (''severity'', PStr ''MEDIUM'')]))
   \<and> dict_get (anomaly_action sample_format
                 [(''anomaly_detected'', PBool True), (''severity'', PStr ''MEDIUM'')])
        ''severity'' = PStr ''HIGH''
   \<and> (\<exists>d. apply_priority_cascade sample_format medium_anomaly_results [] = Inr d
          \<and> dict_get d ''severity'' = PStr ''WARNING''
          \<and> map action_kind (all_actions d) = [PStr ''ANOMALY_DETECTED'', PStr ''DNF_RISK''])"
  by (simp add: apply_priority_cascade_def check_safety_constraints_def dict_get_default_def
        dict_get_def anomaly_action_def in_strs_def eq_num_def energy_and_performance_def
        check_energy_constraints_def recommend_performance_optimization_def truthy_action_def
        append_action_def consolidate_def all_actions_def action_kind_def Let_def
        count_alerts_def medium_anomaly_results_def)

subsection \<open>The alert count\<close>

text \<open>
  Claim C8 says that every returned decision carries the number of actions of severity
  \<^verbatim>\<open>CRITICAL\<close>, \<^verbatim>\<open>HIGH\<close> or \<^verbatim>\<open>WARNING\<close>, also on the early return. The
  consolidated return has the key \<^verbatim>\<open>count_alerts\<close>; the early return on a critical
  safety action has the keys \<^verbatim>\<open>primary_action\<close>, \<^verbatim>\<open>actions\<close>, \<^verbatim>\<open>reason\<close> and
  \<^verbatim>\<open>severity\<close> only, so its one critical action is not counted anywhere.
\<close>

theorem early_return_has_no_alert_count:
  "apply_priority_cascade sample_format critical_anomaly_results [] =
     Inr [(''primary_action'',
             PDict [(''action'', PStr ''ANOMALY_DETECTED''), (''type'', PNone),
                    (''severity'', PStr ''CRITICAL''), (''recommendation'', PNone),
                    (''reason'', PStr ''Anomaly: value'')]),
          (''actions'',
             PList [PDict [(''action'', PStr ''ANOMALY_DETECTED''), (''type'', PNone),
                    (''severity'', PStr ''CRITICAL''), (''recommendation'', PNone),
                    (''reason'', PStr ''Anomaly: value'')]]),
          (''reason'', PStr ''SAFETY OVERRIDE''),
          (''severity'', PStr ''CRITICAL'')]
   \<and> map_of [(''primary_action'',
             PDict [(''action'', PStr ''ANOMALY_DETECTED''), (''type'', PNone),
                    (''severity'', PStr ''CRITICAL''), (''recommendation'', PNone),
                    (''reason'', PStr ''Anomaly: value'')]),
          (''actions'',
             PList [PDict [(''action'', PStr ''ANOMALY_DETECTED''), (''type'', PNone),
                    (''severity'', PStr ''CRITICAL''), (''recommendation'', PNone),
                    (''reason'', PStr ''Anomaly: value'')]]),
          (''reason'', PStr ''SAFETY OVERRIDE''),
          (''severity'', PStr ''CRITICAL'')] ''count_alerts'' = None"
  by (simp add: apply_priority_cascade_def check_safety_constraints_def dict_get_default_def
        dict_get_def anomaly_action_def in_strs_def sample_format_def Let_def
        critical_anomaly_results_def)

section \<open>Properties of the inference engine\<close>

subsection \<open>The loop over the priority order\<close>

lemma dict_set_fresh: "k \<notin> set (map fst d) \<Longrightarrow> dict_set d k v = d @ [(k, v)]"
  by (induction d) auto


lemma attempt_model_clock:
  "clock (attempt_model P ms tel n s) = clock s + iteration_time P n"
  by (simp add: attempt_model_def iteration_time_def Let_def)

lemma attempt_model_attempted: "attempted (attempt_model P ms tel n s) = attempted s @ [n]"
  by (simp add: attempt_model_def Let_def)

lemma attempt_model_results:
  "results (attempt_model P ms tel n s) =
     (if truthy (run_model P ms tel n) then dict_set (results s) n (run_model P ms tel n)
      else results s)"
  by (simp add: attempt_model_def Let_def)

lemma run_models_attempted:
  "attempted (run_models P ms tel st b names s) =
     attempted s @ within_budget (iteration_time P) b (clock s - st) names"
proof (induction names arbitrary: s)
  case Nil
  then show ?case by simp
next
  case (Cons n rest)
  have "clock (attempt_model P ms tel n s) - st = clock s - st + iteration_time P n"
    by (simp add: attempt_model_clock)
  with Cons.IH[of "attempt_model P ms tel n s"] show ?case
    by (simp add: attempt_model_attempted)
qed

lemma within_budget_prefix: "prefix (within_budget lat b e names) names"
  by (induction names arbitrary: e) auto

lemma within_budget_all:
  assumes "\<forall>n \<in> set names. 0 \<le> lat n" and "e + sum_list (map lat (butlast names)) \<le> b"
  shows "within_budget lat b e names = names"
  using assms
proof (induction names arbitrary: e)
  case Nil
  then show ?case by simp
next
  case (Cons n rest)
  have nonneg: "0 \<le> sum_list (map lat (butlast rest))"
    using Cons.prems(1) by (intro sum_list_nonneg) (auto dest: in_set_butlastD)
  show ?case
  proof (cases rest)
    case Nil
    with Cons.prems show ?thesis by simp
  next
    case (Cons m rest')
    with Cons.prems nonneg Cons.IH[of "e + lat n"] show ?thesis
      using \<open>\<forall>n\<in>set (n # rest). 0 \<le> lat n\<close> by (auto simp: add.assoc)
  qed
qed

lemma within_budget_strict:
  assumes "names \<noteq> []" and "e + sum_list (map lat (butlast names)) > b"
  shows "strict_prefix (within_budget lat b e names) names"
  using assms
proof (induction names arbitrary: e)
  case Nil
  then show ?case by simp
next
  case (Cons n rest)
  show ?case
  proof (cases "e > b")
    case True
    then show ?thesis by simp
  next
    case False
    with Cons.prems have ne: "rest \<noteq> []" by auto
    with Cons.prems have "(e + lat n) + sum_list (map lat (butlast rest)) > b"
      by (simp add: add.assoc)
    from Cons.IH[OF ne this] False show ?thesis by simp
  qed
qed

lemma within_budget_subset: "set (within_budget lat b e names) \<subseteq> set names"
  using set_mono_prefix[OF within_budget_prefix[of lat b e names]] .

lemma run_models_results:
  assumes "distinct names" and "set names \<inter> set (map fst (results s)) = {}"
  shows "results (run_models P ms tel st b names s) =
           results s @
           map (\<lambda>n. (n, run_model P ms tel n))
               (filter (\<lambda>n. truthy (run_model P ms tel n))
                       (within_budget (iteration_time P) b (clock s - st) names))"
  using assms
proof (induction names arbitrary: s)
  case Nil
  then show ?case by simp
next
  case (Cons n rest)
  let ?s = "attempt_model P ms tel n s"
  have fresh: "n \<notin> set (map fst (results s))" using Cons.prems by auto
  have res: "results ?s =
      (if truthy (run_model P ms tel n) then results s @ [(n, run_model P ms tel n)]
       else results s)"
    by (simp add: attempt_model_results dict_set_fresh[OF fresh])
  have disj: "set rest \<inter> set (map fst (results ?s)) = {}"
    using Cons.prems by (auto simp: res)
  have clk: "clock ?s - st = clock s - st + iteration_time P n"
    by (simp add: attempt_model_clock)
  from Cons.prems have "distinct rest" by simp
  from Cons.IH[OF this disj] show ?case
    by (simp add: res clk)
qed

subsection \<open>One cycle\<close>

lemma cycle_of_valid:
  "validate_telemetry tel \<Longrightarrow>
     snd (run_real_time_inference F P eng now tel rc t) =
       run_models P (models eng) tel now (real_of_int t / 1000) priority_order
         \<lparr>results = [], times = inference_times eng, clock = now + startup P,
          attempted = []\<rparr>"
  by (simp add: run_real_time_inference_def Let_def split: sum.splits)

lemma cycle_of_invalid:
  "\<not> validate_telemetry tel \<Longrightarrow>
     run_real_time_inference F P eng now tel rc t =
       (Inr (generate_fallback_response ''Invalid telemetry''),
        \<lparr>results = [], times = inference_times eng, clock = now, attempted = []\<rparr>)"
  by (simp add: run_real_time_inference_def Let_def)

lemma distinct_priority_order: "distinct priority_order"
  by (simp add: priority_order_def)

lemma cycle_attempted:
  "validate_telemetry tel \<Longrightarrow>
     attempted (snd (run_real_time_inference F P eng now tel rc t)) =
       within_budget (iteration_time P) (real_of_int t / 1000) (startup P) priority_order"
  by (simp add: cycle_of_valid run_models_attempted)

lemma cycle_attempted_general:
  "attempted (snd (run_real_time_inference F P eng now tel rc t)) =
     (if validate_telemetry tel
      then within_budget (iteration_time P) (real_of_int t / 1000) (startup P) priority_order
      else [])"
  by (simp add: cycle_attempted cycle_of_invalid)

lemma cycle_results:
  "validate_telemetry tel \<Longrightarrow>
     results (snd (run_real_time_inference F P eng now tel rc t)) =
       map (\<lambda>n. (n, run_model P (models eng) tel n))
         (filter (\<lambda>n. truthy (run_model P (models eng) tel n))
            (within_budget (iteration_time P) (real_of_int t / 1000) (startup P)
               priority_order))"
  by (simp add: cycle_of_valid run_models_results[OF distinct_priority_order])


lemma map_of_cycle_results:
  assumes "map_of (results (snd (run_real_time_inference F P eng now tel rc t))) name = Some v"
  shows "v = run_model P (models eng) tel name \<and> truthy v"
proof (cases "validate_telemetry tel")
  case True
  from assms
  have "(name, v) \<in> set (results (snd (run_real_time_inference F P eng now tel rc t)))"
    by (rule map_of_SomeD)
  then show ?thesis by (auto simp: cycle_results[OF True])
next
  case False
  with assms show ?thesis by (simp add: cycle_of_invalid)
qed

lemma run_model_failed:
  assumes "name \<in> set priority_order"
      and "map_of ms name = None \<or>
           (\<exists>m e. map_of ms name = Some m \<and> outcome P name m tel = Inl e)"
  shows "run_model P ms tel name = PNone"
proof -
  have "run_inference P ms name tel = PNone"
    using assms(2) by (auto simp: run_inference_def)
  moreover have "run_model P ms tel name = run_inference P ms name tel"
    using assms(1)
    by (auto simp: priority_order_def run_model_def run_anomaly_inference_def
        run_fatigue_inference_def run_energy_inference_def run_h2_purge_inference_def
        run_racing_line_inference_def run_slip_coast_inference_def run_efficiency_inference_def
        run_rank_inference_def)
  ultimately show ?thesis by simp
qed

lemma run_model_no_models: "run_model P [] tel n = PNone"
  by (simp add: run_model_def run_anomaly_inference_def
        run_fatigue_inference_def run_energy_inference_def run_h2_purge_inference_def
        run_racing_line_inference_def run_slip_coast_inference_def run_efficiency_inference_def
        run_rank_inference_def run_inference_def)

lemma sample_telemetry_valid: "validate_telemetry sample_telemetry"
  by (simp add: sample_telemetry_def required_keys_def)

lemma sample_iteration_time: "iteration_time sample_predictors k = 131 / 10000"
  by (simp add: iteration_time_def sample_predictors_def)

lemma sample_startup: "startup sample_predictors = 1 / 1000"
  by (simp add: sample_predictors_def)

lemma run_model_succeeded:
  assumes "name \<in> set priority_order"
      and "map_of ms name = Some m"
      and "outcome P name m tel = Inr v"
  shows "run_model P ms tel name = v"
proof -
  have "run_inference P ms name tel = v"
    using assms(2,3) by (simp add: run_inference_def)
  moreover have "run_model P ms tel name = run_inference P ms name tel"
    using assms(1)
    by (auto simp: priority_order_def run_model_def run_anomaly_inference_def
        run_fatigue_inference_def run_energy_inference_def run_h2_purge_inference_def
        run_racing_line_inference_def run_slip_coast_inference_def run_efficiency_inference_def
        run_rank_inference_def)
  ultimately show ?thesis by simp
qed

lemma sample_run_model:
  "n \<in> set priority_order \<Longrightarrow>
     run_model sample_predictors (models sample_engine) tel n =
       (if n = ''energy'' then PDict [(''will_finish'', PBool True), (''margin'', PFloat 35)]
        else PDict [(''confidence'', PFloat (9 / 10))])"
  by (rule run_model_succeeded[where m="()"])
     (auto simp: sample_engine_def sample_predictors_def priority_order_def)

lemma map_of_tabulated:
  "map_of (map (\<lambda>n. (n, f n)) xs) k = (if k \<in> set xs then Some (f k) else None)"
  by (induction xs) auto


subsection \<open>The attempted predictors and the budget\<close>

text \<open>
  Claim C4, amended. The predictors attempted in a cycle, in the order of their
  invocation, are a prefix of the priority order, and the identifiers of the result set
  are among the attempted ones; both hold for every budget and all timings. The budget
  is compared with the time elapsed since the start of the cycle, which includes the time
  spent outside the predictor calls, and it is compared before a call only. So the
  attempted sequence is the whole priority order when the time elapsed at the last check
  (the startup time and the first seven iterations) is within the budget, for valid
  telemetry and iterations that take no negative time; and it is a strict prefix when the
  budget is smaller than that elapsed time. The sum of the predictor latencies decides
  neither.
\<close>

theorem attempted_prefix_of_priority_order:
  "prefix (attempted (snd (run_real_time_inference F P eng now telemetry rc timeout_ms)))
          priority_order
   \<and> set (map fst (results (snd (run_real_time_inference F P eng now telemetry rc timeout_ms))))
       \<subseteq> set (attempted (snd (run_real_time_inference F P eng now telemetry rc timeout_ms)))
   \<and> (validate_telemetry telemetry \<and> (\<forall>n \<in> set priority_order. 0 \<le> iteration_time P n) \<and>
      startup P + sum_list (map (iteration_time P) (butlast priority_order))
        \<le> real_of_int timeout_ms / 1000 \<longrightarrow>
        attempted (snd (run_real_time_inference F P eng now telemetry rc timeout_ms))
          = priority_order)
   \<and> (real_of_int timeout_ms / 1000
        < startup P + sum_list (map (iteration_time P) (butlast priority_order)) \<longrightarrow>
        strict_prefix
          (attempted (snd (run_real_time_inference F P eng now telemetry rc timeout_ms)))
          priority_order)"
proof -
  let ?b = "real_of_int timeout_ms / 1000"
  let ?c = "snd (run_real_time_inference F P eng now telemetry rc timeout_ms)"
  let ?w = "within_budget (iteration_time P) ?b (startup P) priority_order"
  have att: "attempted ?c = (if validate_telemetry telemetry then ?w else [])"
    by (rule cycle_attempted_general)
  have p: "prefix (attempted ?c) priority_order"
    by (simp add: att within_budget_prefix)
  have keys: "set (map fst (results ?c)) \<subseteq> set (attempted ?c)"
  proof (cases "validate_telemetry telemetry")
    case True
    then show ?thesis by (auto simp: cycle_results[OF True] att)
  next
    case False
    then show ?thesis by (simp add: cycle_of_invalid)
  qed
  have full: "attempted ?c = priority_order"
    if "validate_telemetry telemetry" "\<forall>n \<in> set priority_order. 0 \<le> iteration_time P n"
       "startup P + sum_list (map (iteration_time P) (butlast priority_order)) \<le> ?b"
    using within_budget_all[where names=priority_order and e="startup P"
            and lat="iteration_time P" and b="?b"] that
    by (simp add: att)
  have strict: "strict_prefix (attempted ?c) priority_order"
    if "?b < startup P + sum_list (map (iteration_time P) (butlast priority_order))"
  proof (cases "validate_telemetry telemetry")
    case True
    have "priority_order \<noteq> []" by (simp add: priority_order_def)
    from within_budget_strict[OF this, where e="startup P" and lat="iteration_time P"
           and b="?b"] that True
    show ?thesis by (simp add: att)
  next
    case False
    then show ?thesis by (simp add: att priority_order_def)
  qed
  from p keys full strict show ?thesis by blast
qed

theorem attempted_prefix_of_priority_order_witness:
  "validate_telemetry sample_telemetry
   \<and> list_all (\<lambda>n. 0 \<le> iteration_time sample_predictors n) priority_order
   \<and> startup sample_predictors
       + sum_list (map (iteration_time sample_predictors) (butlast priority_order))
       \<le> real_of_int 100 / 1000
   \<and> real_of_int 50 / 1000
       < startup sample_predictors
         + sum_list (map (iteration_time sample_predictors) (butlast priority_order))
   \<and> attempted (snd (run_real_time_inference sample_format sample_predictors sample_engine 0
                        sample_telemetry [] 100)) = priority_order
   \<and> strict_prefix
        (attempted (snd (run_real_time_inference sample_format sample_predictors sample_engine 0
                        sample_telemetry [] 50)))
        priority_order"
proof -
  have l: "\<forall>n \<in> set priority_order. 0 \<le> iteration_time sample_predictors n"
    by (simp add: sample_iteration_time)
  have s: "startup sample_predictors
             + sum_list (map (iteration_time sample_predictors) (butlast priority_order))
           = 927 / 10000"
    by (simp add: sample_iteration_time sample_startup priority_order_def)
  note big = attempted_prefix_of_priority_order
    [where F=sample_format and P=sample_predictors and eng=sample_engine and now=0
       and telemetry=sample_telemetry and rc="[]" and timeout_ms=100]
  note small = attempted_prefix_of_priority_order
    [where F=sample_format and P=sample_predictors and eng=sample_engine and now=0
       and telemetry=sample_telemetry and rc="[]" and timeout_ms=50]
  have a: "attempted (snd (run_real_time_inference sample_format sample_predictors
             sample_engine 0 sample_telemetry [] 100)) = priority_order"
    using big[THEN conjunct2, THEN conjunct2, THEN conjunct1] sample_telemetry_valid l s
    by simp
  have b: "strict_prefix
        (attempted (snd (run_real_time_inference sample_format sample_predictors sample_engine 0
                        sample_telemetry [] 50)))
        priority_order"
    using small[THEN conjunct2, THEN conjunct2, THEN conjunct2] s by simp
  from sample_telemetry_valid l s a b show ?thesis by (simp add: list_all_iff)
qed

text \<open>
  The claim as stated fails in both thresholds. With eight predictors of 13 ms each and
  a budget of 100 ms the budget is below the sum of the latencies (104 ms), and yet every
  predictor is attempted and every identifier is in the result set. With predictors that
  take no time and a budget of 0 ms the budget is not below the sum of the latencies,
  and yet no predictor is attempted: the millisecond before the first check exceeds the
  budget.
\<close>

theorem full_list_attempted_beyond_budget:
  "real_of_int 100 / 1000 < sum_list (map (latency sample_predictors) priority_order)
   \<and> attempted (snd (run_real_time_inference sample_format sample_predictors sample_engine 0
                        sample_telemetry [] 100)) = priority_order
   \<and> map fst (results (snd (run_real_time_inference sample_format sample_predictors
                               sample_engine 0 sample_telemetry [] 100))) = priority_order
   \<and> \<not> strict_prefix
          (attempted (snd (run_real_time_inference sample_format sample_predictors sample_engine 0
                        sample_telemetry [] 100)))
          priority_order
   \<and> sum_list (map (latency instant_predictors) priority_order) \<le> real_of_int 0 / 1000
   \<and> validate_telemetry sample_telemetry
   \<and> attempted (snd (run_real_time_inference sample_format instant_predictors sample_engine 0
                        sample_telemetry [] 0)) = []"
proof -
  have a: "attempted (snd (run_real_time_inference sample_format sample_predictors sample_engine 0
                        sample_telemetry [] 100)) = priority_order"
    by (simp add: cycle_attempted[OF sample_telemetry_valid] sample_iteration_time
          sample_startup priority_order_def)
  have r: "map fst (results (snd (run_real_time_inference sample_format sample_predictors
                               sample_engine 0 sample_telemetry [] 100))) = priority_order"
    by (simp add: cycle_results[OF sample_telemetry_valid] sample_iteration_time
          sample_startup sample_run_model priority_order_def)
  have s: "sum_list (map (latency sample_predictors) priority_order) = 104 / 1000"
    by (simp add: sample_predictors_def priority_order_def)
  have z: "sum_list (map (latency instant_predictors) priority_order) = 0"
    by (simp add: instant_predictors_def)
  have n: "attempted (snd (run_real_time_inference sample_format instant_predictors
             sample_engine 0 sample_telemetry [] 0)) = []"
    by (simp add: cycle_attempted[OF sample_telemetry_valid] instant_predictors_def
          sample_predictors_def priority_order_def)
  show ?thesis by (simp add: a r s z n sample_telemetry_valid)
qed

subsection \<open>A predictor that fails\<close>

text \<open>
  Claim C6, amended. When the model of a predictor of the priority order is not loaded,
  or its invocation raises an exception, the call returns \<open>None\<close> (no exception leaves
  it: the loop has no failing outcome) and the predictor has no entry in the result set.
  The loop goes on, under its budget as in any cycle: the predictors attempted are
  those that the budget lets through given the time each iteration takes, whatever the
  outcomes are, so the later ones are attempted as long as the time elapsed at their
  budget check is within the budget, and all eight are when the time elapsed at the last
  check is. Every attempted predictor whose model is loaded and whose invocation
  returns a true value has that value in the result set, and this result set is the one
  passed to the cascade.
\<close>

theorem failed_predictor_is_omitted:
  assumes "name \<in> set priority_order"
      and "map_of (models eng) name = None \<or>
           (\<exists>m e. map_of (models eng) name = Some m \<and> outcome P name m telemetry = Inl e)"
  shows "run_model P (models eng) telemetry name = PNone
       \<and> map_of (results (snd (run_real_time_inference F P eng now telemetry rc timeout_ms))) name
           = None
       \<and> attempted (snd (run_real_time_inference F P eng now telemetry rc timeout_ms)) =
           (if validate_telemetry telemetry
            then within_budget (iteration_time P) (real_of_int timeout_ms / 1000) (startup P)
                   priority_order
            else [])
       \<and> (other \<in> set (attempted (snd (run_real_time_inference F P eng now telemetry rc
                                          timeout_ms))) \<and>
          map_of (models eng) other = Some model \<and>
          outcome P other model telemetry = Inr v \<and> truthy v \<longrightarrow>
            map_of (results (snd (run_real_time_inference F P eng now telemetry rc timeout_ms)))
              other = Some v)
       \<and> (validate_telemetry telemetry \<longrightarrow>
            fst (run_real_time_inference F P eng now telemetry rc timeout_ms) =
              (case apply_priority_cascade F
                      (results (snd (run_real_time_inference F P eng now telemetry rc
                                       timeout_ms))) rc of
                 Inl e \<Rightarrow> Inl e
               | Inr d \<Rightarrow>
                   Inr (dict_set
                          (dict_set d ''total_inference_ms''
                             (PFloat ((clock (snd (run_real_time_inference F P eng now telemetry
                                                     rc timeout_ms))
                                       + wrapup P - now) * 1000)))
                          ''models_executed''
                          (PList (map (\<lambda>kv. PStr (fst kv))
                                    (results (snd (run_real_time_inference F P eng now
                                                     telemetry rc timeout_ms)))))))) 
       \<and> (validate_telemetry telemetry \<and> (\<forall>n \<in> set priority_order. 0 \<le> iteration_time P n) \<and>
          startup P + sum_list (map (iteration_time P) (butlast priority_order))
            \<le> real_of_int timeout_ms / 1000 \<longrightarrow>
            attempted (snd (run_real_time_inference F P eng now telemetry rc timeout_ms)) =
            priority_order)"
proof -
  let ?c = "snd (run_real_time_inference F P eng now telemetry rc timeout_ms)"
  have none: "run_model P (models eng) telemetry name = PNone"
    using assms by (rule run_model_failed)
  have omitted: "map_of (results ?c) name = None"
  proof (rule ccontr)
    assume "map_of (results ?c) name \<noteq> None"
    then obtain v where "map_of (results ?c) name = Some v" by blast
    from map_of_cycle_results[OF this] none show False by auto
  qed
  have att: "attempted ?c =
           (if validate_telemetry telemetry
            then within_budget (iteration_time P) (real_of_int timeout_ms / 1000) (startup P)
                   priority_order
            else [])"
    by (rule cycle_attempted_general)
  have reach: "map_of (results ?c) other = Some v"
    if "other \<in> set (attempted ?c)" "map_of (models eng) other = Some model"
       "outcome P other model telemetry = Inr v" "truthy v"
  proof -
    from that(1) have valid: "validate_telemetry telemetry"
      by (cases "validate_telemetry telemetry") (simp_all add: att)
    from that(1) valid have w: "other \<in> set (within_budget (iteration_time P)
        (real_of_int timeout_ms / 1000) (startup P) priority_order)"
      by (simp add: att)
    with within_budget_subset have "other \<in> set priority_order" by blast
    from run_model_succeeded[OF this that(2) that(3)]
    have rm: "run_model P (models eng) telemetry other = v" .
    show ?thesis
      using w rm that(4) by (simp add: cycle_results[OF valid] map_of_tabulated)
  qed
  have passed: "fst (run_real_time_inference F P eng now telemetry rc timeout_ms) =
              (case apply_priority_cascade F (results ?c) rc of
                 Inl e \<Rightarrow> Inl e
               | Inr d \<Rightarrow>
                   Inr (dict_set
                          (dict_set d ''total_inference_ms''
                             (PFloat ((clock ?c + wrapup P - now) * 1000)))
                          ''models_executed''
                          (PList (map (\<lambda>kv. PStr (fst kv)) (results ?c)))))"
    if "validate_telemetry telemetry"
    using that by (simp add: run_real_time_inference_def Let_def split: sum.splits)
  have full: "attempted ?c = priority_order"
    if "validate_telemetry telemetry" "\<forall>n \<in> set priority_order. 0 \<le> iteration_time P n"
       "startup P + sum_list (map (iteration_time P) (butlast priority_order))
          \<le> real_of_int timeout_ms / 1000"
    using within_budget_all[where names=priority_order and e="startup P"
            and lat="iteration_time P" and b="real_of_int timeout_ms / 1000"] that
    by (simp add: cycle_attempted)
  from none omitted att reach passed full show ?thesis by blast
qed

theorem failed_predictor_is_omitted_witness:
  "''h2_purge'' \<in> set priority_order
   \<and> map_of (models sample_engine) ''h2_purge'' = Some ()
   \<and> outcome failing_predictors ''h2_purge'' () sample_telemetry = Inl KeyError
   \<and> validate_telemetry sample_telemetry
   \<and> list_all (\<lambda>n. 0 \<le> iteration_time failing_predictors n) priority_order
   \<and> startup failing_predictors
       + sum_list (map (iteration_time failing_predictors) (butlast priority_order))
       \<le> real_of_int 100 / 1000
   \<and> map_of (models sample_engine) ''rank'' = Some ()
   \<and> outcome failing_predictors ''rank'' () sample_telemetry
       = Inr (PDict [(''confidence'', PFloat (9 / 10))])
   \<and> truthy (PDict [(''confidence'', PFloat (9 / 10))])
   \<and> run_model failing_predictors (models sample_engine) sample_telemetry ''h2_purge'' = PNone
   \<and> map_of (results (snd (run_real_time_inference sample_format failing_predictors sample_engine
                              0 sample_telemetry [] 100))) ''h2_purge'' = None
   \<and> attempted (snd (run_real_time_inference sample_format failing_predictors sample_engine
                              0 sample_telemetry [] 100)) = priority_order
   \<and> map_of (results (snd (run_real_time_inference sample_format failing_predictors sample_engine
                              0 sample_telemetry [] 100))) ''rank''
       = Some (PDict [(''confidence'', PFloat (9 / 10))])"
proof -
  let ?c = "snd (run_real_time_inference sample_format failing_predictors sample_engine
                   0 sample_telemetry [] 100)"
  have n: "''h2_purge'' \<in> set priority_order" by (simp add: priority_order_def)
  have m: "map_of (models sample_engine) ''h2_purge'' = Some ()"
    by (simp add: sample_engine_def priority_order_def)
  have e: "outcome failing_predictors ''h2_purge'' () sample_telemetry = Inl KeyError"
    by (simp add: failing_predictors_def)
  have f: "map_of (models sample_engine) ''h2_purge'' = None \<or>
           (\<exists>m e. map_of (models sample_engine) ''h2_purge'' = Some m \<and>
                  outcome failing_predictors ''h2_purge'' m sample_telemetry = Inl e)"
    using m e by blast
  have it: "iteration_time failing_predictors k = 131 / 10000" for k
    by (simp add: iteration_time_def failing_predictors_def sample_predictors_def)
  have p: "\<forall>n \<in> set priority_order. 0 \<le> iteration_time failing_predictors n"
    by (simp add: it)
  have s: "startup failing_predictors
             + sum_list (map (iteration_time failing_predictors) (butlast priority_order))
           \<le> real_of_int 100 / 1000"
  proof -
    have "startup failing_predictors = 1 / 1000"
      by (simp add: failing_predictors_def sample_predictors_def)
    then show ?thesis by (simp add: it priority_order_def)
  qed
  have m2: "map_of (models sample_engine) ''rank'' = Some ()"
    by (simp add: sample_engine_def priority_order_def)
  have e2: "outcome failing_predictors ''rank'' () sample_telemetry
              = Inr (PDict [(''confidence'', PFloat (9 / 10))])"
    by (simp add: failing_predictors_def sample_predictors_def)
  have t2: "truthy (PDict [(''confidence'', PFloat (9 / 10))])" by simp
  note T = failed_predictor_is_omitted
    [OF n f, where F=sample_format and now=0 and rc="[]" and timeout_ms=100
       and other="''rank''" and model="()" and v="PDict [(''confidence'', PFloat (9 / 10))]"]
  have c1: "run_model failing_predictors (models sample_engine) sample_telemetry ''h2_purge''
              = PNone"
    using T by (rule conjunct1)
  have c2: "map_of (results ?c) ''h2_purge'' = None"
    using T[THEN conjunct2] by (rule conjunct1)
  have c6: "attempted ?c = priority_order"
    using T[THEN conjunct2, THEN conjunct2, THEN conjunct2, THEN conjunct2, THEN conjunct2]
          sample_telemetry_valid p s
    by simp
  have c4: "map_of (results ?c) ''rank'' = Some (PDict [(''confidence'', PFloat (9 / 10))])"
    using T[THEN conjunct2, THEN conjunct2, THEN conjunct2, THEN conjunct1] c6 m2 e2
    by (simp add: priority_order_def)
  from n m e sample_telemetry_valid p s m2 e2 t2 c1 c2 c6 c4
  show ?thesis by (simp add: list_all_iff)
qed

text \<open>
  The claim as stated fails in its last part: when the anomaly predictor raises after
  200 ms and the budget is 100 ms, the loop stops at the next budget check, and none of
  the seven remaining predictors is attempted.
\<close>

theorem slow_failure_uses_up_budget:
  "''anomaly'' \<in> set priority_order
   \<and> map_of (models sample_engine) ''anomaly'' = Some ()
   \<and> outcome slow_failing_predictors ''anomaly'' () sample_telemetry = Inl KeyError
   \<and> validate_telemetry sample_telemetry
   \<and> attempted (snd (run_real_time_inference sample_format slow_failing_predictors
                        sample_engine 0 sample_telemetry [] 100)) = [''anomaly'']
   \<and> ''fatigue'' \<notin> set (attempted (snd (run_real_time_inference sample_format
                        slow_failing_predictors sample_engine 0 sample_telemetry [] 100)))"
proof -
  have a: "attempted (snd (run_real_time_inference sample_format slow_failing_predictors
                        sample_engine 0 sample_telemetry [] 100)) = [''anomaly'']"
    by (simp add: cycle_attempted[OF sample_telemetry_valid] iteration_time_def
          slow_failing_predictors_def sample_predictors_def priority_order_def)
  have n: "''anomaly'' \<in> set priority_order" by (simp add: priority_order_def)
  have m: "map_of (models sample_engine) ''anomaly'' = Some ()"
    by (simp add: sample_engine_def priority_order_def)
  have e: "outcome slow_failing_predictors ''anomaly'' () sample_telemetry = Inl KeyError"
    by (simp add: slow_failing_predictors_def)
  from n m e sample_telemetry_valid a show ?thesis by simp
qed

subsection \<open>A cycle without an energy result\<close>

text \<open>
  Claim C2 says that a cycle on valid telemetry always returns a decision and that the
  cascade is total on result sets whose energy entry is absent or partial. In the code
  the comparison \<^verbatim>\<open>energy.get("margin") < 10\<close> has no default: on a result set without
  an energy entry, or with one that lacks the margin, it compares \<open>None\<close> with 10 and
  raises \<^verbatim>\<open>TypeError\<close>, which leaves \<^verbatim>\<open>run_real_time_inference\<close>. This happens for
  valid telemetry on an engine that has no model loaded.
\<close>

theorem cycle_raises_without_energy_result:
  "apply_priority_cascade F [] race_context = Inl TypeError
   \<and> apply_priority_cascade F
        [(''energy'', PDict [(''will_finish'', PBool True), (''confidence'', PFloat (9 / 10))])]
        race_context = Inl TypeError
   \<and> validate_telemetry sample_telemetry
   \<and> fst (run_real_time_inference F P \<lparr>models = [], inference_times = ts\<rparr> now
             sample_telemetry race_context timeout_ms) = Inl TypeError"
proof -
  have r: "results (snd (run_real_time_inference F P \<lparr>models = [], inference_times = ts\<rparr> now
             sample_telemetry race_context timeout_ms)) = []"
    by (simp add: cycle_results[OF sample_telemetry_valid] run_model_no_models)
  have c: "fst (run_real_time_inference F P \<lparr>models = [], inference_times = ts\<rparr> now
             sample_telemetry race_context timeout_ms) = Inl TypeError"
    using r sample_telemetry_valid cascade_no_results[of F race_context]
    by (simp add: run_real_time_inference_def Let_def split: sum.splits)
  have p: "apply_priority_cascade F
        [(''energy'', PDict [(''will_finish'', PBool True), (''confidence'', PFloat (9 / 10))])]
        race_context = Inl TypeError"
    by (simp add: apply_priority_cascade_def check_safety_constraints_def dict_get_default_def
        dict_get_def high_fatigue_check_def eq_num_def energy_and_performance_def
        check_energy_constraints_def)
  from cascade_no_results sample_telemetry_valid c p show ?thesis by simp
qed

subsection \<open>Telemetry that is rejected\<close>




section \<open>Properties of the race phase\<close>

text \<open>
  Claim C9, amended. The returned phase depends on the current lap and the total laps
  only, and the five entries of the table hold. For every pair of laps the phase is
  given by the first branch that applies among: lap 0 is \<^verbatim>\<open>PRACTICE\<close>; a lap of at
  most 2 is \<^verbatim>\<open>EARLY\<close>; lap 3 is \<^verbatim>\<open>MID\<close>; a lap equal to the total is \<^verbatim>\<open>LATE\<close>; a
  lap beyond the total is \<^verbatim>\<open>FINISH\<close>; any other lap is \<^verbatim>\<open>UNKNOWN\<close>. That sixth
  branch is taken exactly by the laps strictly between 3 and the total.
\<close>

theorem race_phase_table:
  "determine_race_phase 0 total_laps = ''PRACTICE''
   \<and> determine_race_phase 2 4 = ''EARLY''
   \<and> determine_race_phase 3 4 = ''MID''
   \<and> determine_race_phase 4 4 = ''LATE''
   \<and> determine_race_phase 5 4 = ''FINISH''
   \<and> determine_race_phase current_lap total_laps =
       (if current_lap = 0 then ''PRACTICE''
        else if current_lap \<le> 2 then ''EARLY''
        else if current_lap = 3 then ''MID''
        else if current_lap = total_laps then ''LATE''
        else if current_lap > total_laps then ''FINISH''
        else ''UNKNOWN'')
   \<and> ((determine_race_phase current_lap total_laps = ''UNKNOWN'')
        = (3 < current_lap \<and> current_lap < total_laps))"
  by (auto simp: determine_race_phase_def)

text \<open>
  The claim as stated fails: lap 4 of a race of 6 laps falls under none of the five
  listed branches.
\<close>

theorem race_phase_unknown_branch:
  "determine_race_phase 4 6 = ''UNKNOWN''"
  by (simp add: determine_race_phase_def)

end
